theory Spec2Isabelle
  imports Main "HOL-Library.Log_Nat"
begin

section \<open>Python values used by the program\<close>

subsection \<open>Floats\<close>

text \<open>
  A Python \<^verbatim>\<open>float\<close> is an IEEE 754 binary64 number. A finite one is kept as the
  rational it denotes; the two infinities and NaN are constructors of their own.
  The sign of zero is not kept (\<^verbatim>\<open>-0.0\<close> and \<^verbatim>\<open>0.0\<close> are the same value here; they
  compare equal in Python and differ only in how they print).
\<close>

datatype pyfloat = Fin rat | PInf | NInf | NaN

text \<open>\<open>ilog2 x\<close> is the integer \<open>e\<close> with \<open>2 ^ e \<le> x < 2 ^ (e + 1)\<close>, for \<open>x > 0\<close>.\<close>

definition ilog2 :: "rat \<Rightarrow> int" where
  "ilog2 x =
     (let (p, q) = quotient_of x;
          e0 = bitlen p - bitlen q
      in if 2 powi e0 \<le> x then e0 else e0 - 1)"

definition round_half_even :: "rat \<Rightarrow> int" where
  "round_half_even x =
     (let f = \<lfloor>x\<rfloor>; d = x - of_int f
      in if d < 1 / 2 then f
         else if 1 / 2 < d then f + 1
         else if even f then f else f + 1)"

text \<open>
  Rounding of an exact result to binary64, to nearest with ties to even: 53 significant
  bits, the exponent of the last bit not below \<open>-1074\<close> (subnormal numbers), and an
  infinity when the rounded magnitude reaches \<open>2 ^ 1024\<close>, that is when its \<open>ilog2\<close>
  reaches 1024.
\<close>

definition round_double :: "rat \<Rightarrow> pyfloat" where
  "round_double x =
     (if x = 0 then Fin 0
      else
        let e = max (ilog2 \<bar>x\<bar>) (- 1022) - 52;
            r = of_int (round_half_even (x / 2 powi e)) * 2 powi e
        in if 1024 \<le> ilog2 \<bar>r\<bar> then (if 0 < x then PInf else NInf) else Fin r)"

text \<open>Python's \<^verbatim>\<open>a * b\<close> and \<^verbatim>\<open>a + b\<close> on floats. Neither raises.\<close>

fun fmul :: "pyfloat \<Rightarrow> pyfloat \<Rightarrow> pyfloat" where
  "fmul NaN _ = NaN"
| "fmul _ NaN = NaN"
| "fmul (Fin a) (Fin b) = round_double (a * b)"
| "fmul (Fin a) PInf = (if a = 0 then NaN else if 0 < a then PInf else NInf)"
| "fmul (Fin a) NInf = (if a = 0 then NaN else if 0 < a then NInf else PInf)"
| "fmul PInf (Fin b) = (if b = 0 then NaN else if 0 < b then PInf else NInf)"
| "fmul NInf (Fin b) = (if b = 0 then NaN else if 0 < b then NInf else PInf)"
| "fmul PInf PInf = PInf"
| "fmul PInf NInf = NInf"
| "fmul NInf PInf = NInf"
| "fmul NInf NInf = PInf"

fun fadd :: "pyfloat \<Rightarrow> pyfloat \<Rightarrow> pyfloat" where
  "fadd NaN _ = NaN"
| "fadd _ NaN = NaN"
| "fadd (Fin a) (Fin b) = round_double (a + b)"
| "fadd (Fin a) PInf = PInf"
| "fadd (Fin a) NInf = NInf"
| "fadd PInf (Fin b) = PInf"
| "fadd NInf (Fin b) = NInf"
| "fadd PInf PInf = PInf"
| "fadd PInf NInf = NaN"
| "fadd NInf PInf = NaN"
| "fadd NInf NInf = NInf"



text \<open>A decimal literal of the source denotes the binary64 number nearest to it.\<close>

definition lit :: "rat \<Rightarrow> pyfloat" where
  "lit x = round_double x"

subsection \<open>Strings\<close>

text \<open>
  A Python string is a list of characters; a character of the model is a code point
  below 256. \<^verbatim>\<open>str.isspace\<close> holds of twelve of them, and \<^verbatim>\<open>str.lower\<close> moves the
  capital letters of ASCII and of Latin-1 (192 to 222 without the sign 215) up by 32.
\<close>

definition py_isspace :: "char \<Rightarrow> bool" where
  "py_isspace c = (of_char c \<in> {9, 10, 11, 12, 13, 28, 29, 30, 31, 32, 133, 160 :: nat})"

definition py_strip :: "string \<Rightarrow> string" where
  "py_strip s = rev (dropWhile py_isspace (rev (dropWhile py_isspace s)))"

definition py_lower_char :: "char \<Rightarrow> char" where
  "py_lower_char c =
     (let n = of_char c :: nat
      in if (65 \<le> n \<and> n \<le> 90) \<or> (192 \<le> n \<and> n \<le> 222 \<and> n \<noteq> 215)
         then char_of (n + 32) else c)"

definition py_lower :: "string \<Rightarrow> string" where
  "py_lower s = map py_lower_char s"

text \<open>
  The decimal digits of a non-negative integer, as \<^verbatim>\<open>str\<close> writes it, and their number
  (\<open>0\<close> has no digit for \<open>ndigits\<close>).
\<close>

function show_nat :: "int \<Rightarrow> string" where
  "show_nat n =
     (if n < 10 then [char_of (48 + n)]
      else show_nat (n div 10) @ [char_of (48 + n mod 10)])"
  by pat_completeness auto
termination
  by (relation "measure nat") auto

function ndigits :: "int \<Rightarrow> int" where
  "ndigits n = (if n \<le> 0 then 0 else ndigits (n div 10) + 1)"
  by pat_completeness auto
termination
  by (relation "measure nat") auto

subsection \<open>Printing a float\<close>

text \<open>
  \<^verbatim>\<open>repr\<close> of a float, which \<^verbatim>\<open>str\<close> and an f-string without a format use too: the
  shortest string of decimal digits that reads back as the same float and, among
  those of that length, the one nearest to it.

  \<open>ilog10 x\<close> is the integer \<open>k\<close> with \<open>10 ^ k \<le> x < 10 ^ (k + 1)\<close>, for \<open>x > 0\<close>.
\<close>

definition ilog10 :: "rat \<Rightarrow> int" where
  "ilog10 x =
     (let (p, q) = quotient_of x;
          k0 = ndigits p - ndigits q
      in if 10 powi k0 \<le> x then k0 else k0 - 1)"

text \<open>
  The multiple of \<open>10 powi (k - n + 1)\<close> next to \<open>a\<close> (below or above it) that rounds to
  \<open>a\<close>, the nearer one if both do: a decimal of \<open>n\<close> digits when \<open>k = ilog10 a\<close>.
\<close>

definition repr_candidate :: "rat \<Rightarrow> int \<Rightarrow> nat \<Rightarrow> int option" where
  "repr_candidate a k n =
     (let u = 10 powi (k - int n + 1);
          lo = \<lfloor>a / u\<rfloor>;
          hi = lo + 1;
          lo_ok = (round_double (of_int lo * u) = Fin a);
          hi_ok = (round_double (of_int hi * u) = Fin a)
      in if lo_ok \<and> (\<not> hi_ok \<or> a / u - of_int lo \<le> of_int hi - a / u) then Some lo
         else if hi_ok then Some hi
         else None)"

text \<open>
  The search for the least number of digits, from \<open>n\<close> up to 17, which is enough for
  every binary64 number; at 17 the nearest decimal is taken.
\<close>

function shortest_digits :: "rat \<Rightarrow> int \<Rightarrow> nat \<Rightarrow> int \<times> nat" where
  "shortest_digits a k n =
     (if 17 \<le> n then (round_half_even (a / 10 powi (k - 16)), 17)
      else case repr_candidate a k n of
             Some d \<Rightarrow> (d, n)
           | None \<Rightarrow> shortest_digits a k (Suc n))"
  by pat_completeness auto
termination
  by (relation "measure (\<lambda>(a, k, n). 17 - n)") auto

definition strip_zeros :: "string \<Rightarrow> string" where
  "strip_zeros ds = rev (dropWhile (\<lambda>c. c = CHR ''0'') (rev ds))"

text \<open>
  The layout of the digits \<open>ds\<close> with the decimal point after the first \<open>decpt\<close> of them:
  exponent notation when \<open>decpt \<le> -4\<close> or \<open>16 < decpt\<close>, with a sign and at least two
  digits in the exponent; positional notation otherwise, with \<^verbatim>\<open>.0\<close> after a whole
  number.
\<close>

definition layout_digits :: "string \<Rightarrow> int \<Rightarrow> string" where
  "layout_digits ds decpt =
     (if decpt \<le> - 4 \<or> 16 < decpt then
        take 1 ds @ (if length ds \<le> 1 then [] else ''.'' @ drop 1 ds) @ ''e''
        @ (if decpt - 1 < 0 then ''-'' else ''+'')
        @ (if \<bar>decpt - 1\<bar> < 10 then ''0'' else [])
        @ show_nat \<bar>decpt - 1\<bar>
      else if decpt \<le> 0 then ''0.'' @ replicate (nat (- decpt)) CHR ''0'' @ ds
      else if length ds \<le> nat decpt then
        ds @ replicate (nat decpt - length ds) CHR ''0'' @ ''.0''
      else take (nat decpt) ds @ ''.'' @ drop (nat decpt) ds)"

definition repr_pos :: "rat \<Rightarrow> string" where
  "repr_pos a =
     (let k = ilog10 a;
          (d, n) = shortest_digits a k 1;
          ds = show_nat d
      in layout_digits (strip_zeros ds) (k + 1 + int (length ds) - int n))"

fun float_repr :: "pyfloat \<Rightarrow> string" where
  "float_repr (Fin a) =
     (if a = 0 then ''0.0'' else if a < 0 then ''-'' @ repr_pos (- a) else repr_pos a)"
| "float_repr PInf = ''inf''"
| "float_repr NInf = ''-inf''"
| "float_repr NaN = ''nan''"

section \<open>The footprint calculator\<close>

text \<open>\<^verbatim>\<open>return energy * 0.233 + distance * 0.12 + waste * 0.5\<close>\<close>

definition calculate_footprint :: "pyfloat \<Rightarrow> pyfloat \<Rightarrow> pyfloat \<Rightarrow> pyfloat" where
  "calculate_footprint energy distance waste =
     fadd (fadd (fmul energy (lit (233 / 1000))) (fmul distance (lit (12 / 100))))
          (fmul waste (lit (5 / 10)))"

section \<open>Values, files and the terminal\<close>

text \<open>
  The two kinds of value the program keeps in a record, and a dictionary as the list of
  its items in insertion order.
\<close>

datatype pyval = Str string | Float pyfloat

type_synonym pydict = "(string \<times> pyval) list"

text \<open>\<^verbatim>\<open>str(v)\<close>, which an f-string applies to a field without a format.\<close>

fun py_str :: "pyval \<Rightarrow> string" where
  "py_str (Str s) = s"
| "py_str (Float f) = float_repr f"

text \<open>
  The exceptions that leave the program: a missing key or column, the end of the
  input at a prompt, and the table reader on a file without any line. The
  \<^verbatim>\<open>ValueError\<close> of \<^verbatim>\<open>float\<close> is caught by the program and is a value below.
\<close>

datatype error = KeyError string | EOFError | EmptyDataError

text \<open>What the terminal shows: a printed line, the prompt of an \<^verbatim>\<open>input\<close>, and the
  line that prints the column index of a table.\<close>

datatype out = Print string | Prompt string | PrintColumns "string list"

text \<open>
  A chart is the list of its plotting calls, each with its label, its categories and
  its values; a document is the list of the drawing calls on its canvas, with whole
  coordinates (the page is 612 by 792 points and every step of the source is a whole
  number).
\<close>

datatype plot = Bar string "string list" "string list" | Line string "string list" "string list"

type_synonym chart = "plot list"

datatype draw =
    SetFont string int
  | DrawString int int string
  | DrawImage chart int int int int bool

type_synonym pdf = "draw list"

text \<open>
  The state: the table file \<^verbatim>\<open>client_data.csv\<close> as the rows of its fields (absent when
  \<open>None\<close>), the image file \<^verbatim>\<open>carbon_trends.png\<close>, the documents by path, the lines still to
  be read from the terminal, and what was written to it. Writing a file always
  succeeds here and directories are not kept: failures of the operating system are
  outside the model, and so are table files that the reader cannot split into fields.
\<close>

record world =
  csv_file :: "string list list option"
  graph_file :: "chart option"
  pdf_files :: "string \<rightharpoonup> pdf"
  stdin :: "string list"
  stdout :: "out list"

definition CSV_FILE :: string where
  "CSV_FILE = ''client_data.csv''"

definition GRAPH_FILE :: string where
  "GRAPH_FILE = ''carbon_trends.png''"

definition quoted :: "string \<Rightarrow> string" where
  "quoted s = CHR 0x27 # s @ [CHR 0x27]"

definition py_print :: "string \<Rightarrow> world \<Rightarrow> world" where
  "py_print s w = w\<lparr>stdout := stdout w @ [Print s]\<rparr>"

text \<open>\<^verbatim>\<open>input(prompt)\<close>: the prompt is written, a line is read; \<^verbatim>\<open>EOFError\<close> when there is none.\<close>

definition py_input :: "string \<Rightarrow> world \<Rightarrow> error + (string \<times> world)" where
  "py_input prompt w =
     (case stdin w of
        [] \<Rightarrow> Inl EOFError
      | l # ls \<Rightarrow> Inr (l, w\<lparr>stdin := ls, stdout := stdout w @ [Prompt prompt]\<rparr>))"

text \<open>\<^verbatim>\<open>d[k]\<close> on a dictionary.\<close>

definition dict_get :: "pydict \<Rightarrow> string \<Rightarrow> error + pyval" where
  "dict_get d k = (case map_of d k of None \<Rightarrow> Inl (KeyError k) | Some v \<Rightarrow> Inr v)"

section \<open>The record store\<close>

text \<open>The text of a field in the table file: a missing number is written as nothing.\<close>

fun csv_cell :: "pyval \<Rightarrow> string" where
  "csv_cell (Str s) = s"
| "csv_cell (Float f) = (if f = NaN then [] else float_repr f)"

text \<open>
  \<^verbatim>\<open>append_to_csv\<close>: a one-row table is made of the dictionary, its columns being the keys
  in their order; it is appended without a header to an existing file and written with
  a header to a new one.
\<close>

definition csv_row :: "pydict \<Rightarrow> string list" where
  "csv_row d = map (\<lambda>kv. csv_cell (snd kv)) d"

definition append_to_csv :: "pydict \<Rightarrow> world \<Rightarrow> error + world" where
  "append_to_csv client_data w =
     (let header = map fst client_data;
          row = csv_row client_data;
          w1 = (case csv_file w of
                  Some content \<Rightarrow> w\<lparr>csv_file := Some (content @ [row])\<rparr>
                | None \<Rightarrow> w\<lparr>csv_file := Some [header, row]\<rparr>)
      in case dict_get client_data ''Client'' of
           Inl e \<Rightarrow> Inl e
         | Inr name \<Rightarrow> Inr (py_print (''Data for '' @ py_str name @ '' added to CSV.'') w1))"

section \<open>The trend renderer\<close>

record dataframe =
  df_columns :: "string list"
  df_rows :: "string list list"

text \<open>\<^verbatim>\<open>pd.read_csv\<close>: the first line names the columns; a file without a line is an error.\<close>

definition read_csv :: "string list list \<Rightarrow> error + dataframe" where
  "read_csv content =
     (case content of
        [] \<Rightarrow> Inl EmptyDataError
      | header # rs \<Rightarrow> Inr \<lparr>df_columns = header, df_rows = rs\<rparr>)"

text \<open>\<^verbatim>\<open>df[c]\<close>: the fields of column \<open>c\<close>, an empty field where a row is short.\<close>

definition get_column :: "dataframe \<Rightarrow> string \<Rightarrow> error + string list" where
  "get_column df c =
     (if c \<in> set (df_columns df)
      then Inr (map (\<lambda>r. case map_of (zip (df_columns df) r) c of Some v \<Rightarrow> v | None \<Rightarrow> [])
                    (df_rows df))
      else Inl (KeyError c))"

text \<open>The two arguments of a plotting call, \<^verbatim>\<open>df['Client']\<close> and \<^verbatim>\<open>df[col]\<close>, in that order.\<close>

definition plot_series :: "dataframe \<Rightarrow> string \<Rightarrow> error + (string list \<times> string list)" where
  "plot_series df col =
     (case get_column df ''Client'' of
        Inl e \<Rightarrow> Inl e
      | Inr xs \<Rightarrow> (case get_column df col of Inl e \<Rightarrow> Inl e | Inr ys \<Rightarrow> Inr (xs, ys)))"

definition draw_chart :: "dataframe \<Rightarrow> error + chart" where
  "draw_chart df =
     (case plot_series df ''total_footprint'' of Inl e \<Rightarrow> Inl e | Inr (x0, y0) \<Rightarrow>
      case plot_series df ''energy_kwh'' of Inl e \<Rightarrow> Inl e | Inr (x1, y1) \<Rightarrow>
      case plot_series df ''transport_km'' of Inl e \<Rightarrow> Inl e | Inr (x2, y2) \<Rightarrow>
      case plot_series df ''waste_kg'' of Inl e \<Rightarrow> Inl e | Inr (x3, y3) \<Rightarrow>
        Inr [Bar ''Carbon Footprint'' x0 y0, Line ''Energy'' x1 y1,
             Line ''Transport'' x2 y2, Line ''Waste'' x3 y3])"

definition generate_graph :: "world \<Rightarrow> error + world" where
  "generate_graph w =
     (case csv_file w of
        None \<Rightarrow> Inr (py_print ''No data found! Run the program and add client data first.'' w)
      | Some content \<Rightarrow>
          (case read_csv content of
             Inl e \<Rightarrow> Inl e
           | Inr df \<Rightarrow>
               let w1 = w\<lparr>stdout := stdout w @ [PrintColumns (df_columns df)]\<rparr>
               in if ''Client'' \<notin> set (df_columns df)
                  then Inr (py_print (''Error: '' @ quoted ''Client'' @ '' column not found in CSV.'') w1)
                  else (case draw_chart df of
                          Inl e \<Rightarrow> Inl e
                        | Inr c \<Rightarrow>
                            Inr (py_print (''Graph saved as '' @ quoted GRAPH_FILE @ ''.'')
                                   (w1\<lparr>graph_file := Some c\<rparr>)))))"

section \<open>The report generator\<close>

text \<open>The text of \<^verbatim>\<open>{data[k]}\<close> in an f-string.\<close>

definition field_text :: "pydict \<Rightarrow> string \<Rightarrow> error + string" where
  "field_text d k = (case dict_get d k of Inl e \<Rightarrow> Inl e | Inr v \<Rightarrow> Inr (py_str v))"

text \<open>
  The drawing calls of \<^verbatim>\<open>create_report\<close> before the image, for the five field texts, with
  the vertical position after them. The page height is 792.
\<close>

definition report_body :: "string \<Rightarrow> string \<Rightarrow> string \<Rightarrow> string \<Rightarrow> string \<Rightarrow> pdf \<times> int" where
  "report_body client energy transport waste footprint =
     (let height = 792;
          y0 = height - 80;
          y1 = y0 - 20;
          y2 = y1 - 20;
          y3 = y2 - 20;
          y4 = y3 - 20;
          y5 = y4 - 30;
          y6 = y5 - 20;
          y7 = y6 - 15;
          y8 = y7 - 15;
          y9 = y8 - 40
      in ([SetFont ''Helvetica-Bold'' 16,
           DrawString 200 (height - 40) ''Carbon Footprint Report'',
           SetFont ''Helvetica'' 12,
           DrawString 50 y0 (''Client: '' @ client),
           DrawString 50 y1 (''Energy: '' @ energy @ '' kWh''),
           DrawString 50 y2 (''Transport: '' @ transport @ '' km''),
           DrawString 50 y3 (''Waste: '' @ waste @ '' kg''),
           DrawString 50 y4 (''Footprint: '' @ footprint @ '' kg CO2''),
           DrawString 50 y5 ''Suggestions:'',
           DrawString 50 y6 ''- Use energy-efficient appliances.'',
           DrawString 50 y7 ''- Carpool or use public transport.'',
           DrawString 50 y8 ''- Recycle and reduce waste.''], y9))"

text \<open>
  \<^verbatim>\<open>create_report\<close>: the fields are read in the order of the source, the image is drawn
  when \<^verbatim>\<open>os.path.exists(GRAPH_FILE)\<close>, and \<^verbatim>\<open>pdf.save()\<close> writes the file.
\<close>

definition create_report :: "pydict \<Rightarrow> string \<Rightarrow> world \<Rightarrow> error + world" where
  "create_report data file_path w =
     (case field_text data ''Client'' of Inl e \<Rightarrow> Inl e | Inr client \<Rightarrow>
      case field_text data ''energy_kwh'' of Inl e \<Rightarrow> Inl e | Inr energy \<Rightarrow>
      case field_text data ''transport_km'' of Inl e \<Rightarrow> Inl e | Inr transport \<Rightarrow>
      case field_text data ''waste_kg'' of Inl e \<Rightarrow> Inl e | Inr waste \<Rightarrow>
      case field_text data ''total_footprint'' of Inl e \<Rightarrow> Inl e | Inr footprint \<Rightarrow>
        let (body, y) = report_body client energy transport waste footprint;
            (doc, w1) =
              (case graph_file w of
                 Some img \<Rightarrow>
                   (body @ [DrawString 50 y ''Carbon Footprint Comparison Graph:'',
                            DrawImage img 50 (y - 200) 500 200 True],
                    py_print (''Added '' @ GRAPH_FILE @ '' to '' @ file_path) w)
               | None \<Rightarrow> (body, w));
            w2 = w1\<lparr>pdf_files := (pdf_files w1)(file_path \<mapsto> doc)\<rparr>
        in Inr (py_print (''PDF Report Created: '' @ file_path) w2))"

section \<open>The session controller\<close>

text \<open>
  \<^verbatim>\<open>float\<close> on a line of input is a parameter \<open>to_float\<close> of the model: \<open>None\<close> is its
  \<^verbatim>\<open>ValueError\<close>. The three prompts of the \<^verbatim>\<open>try\<close> block: the result is \<open>None\<close> with the state
  reached when a line is not a number, and the later prompts are then not shown.
\<close>

definition read_numbers ::
  "(string \<Rightarrow> pyfloat option) \<Rightarrow> world \<Rightarrow> error + ((pyfloat \<times> pyfloat \<times> pyfloat) option \<times> world)" where
  "read_numbers to_float w =
     (case py_input ''Energy (kWh): '' w of Inl e \<Rightarrow> Inl e | Inr (s1, w1) \<Rightarrow>
      case to_float s1 of None \<Rightarrow> Inr (None, w1) | Some energy_kwh \<Rightarrow>
      case py_input ''Transport (km): '' w1 of Inl e \<Rightarrow> Inl e | Inr (s2, w2) \<Rightarrow>
      case to_float s2 of None \<Rightarrow> Inr (None, w2) | Some transport_km \<Rightarrow>
      case py_input ''Waste (kg): '' w2 of Inl e \<Rightarrow> Inl e | Inr (s3, w3) \<Rightarrow>
      case to_float s3 of None \<Rightarrow> Inr (None, w3) | Some waste_kg \<Rightarrow>
        Inr (Some (energy_kwh, transport_km, waste_kg), w3))"

definition client_details ::
  "string \<Rightarrow> pyfloat \<Rightarrow> pyfloat \<Rightarrow> pyfloat \<Rightarrow> pyfloat \<Rightarrow> pydict" where
  "client_details client_name energy_kwh transport_km waste_kg total_footprint =
     [(''Client'', Str client_name),
      (''energy_kwh'', Float energy_kwh),
      (''transport_km'', Float transport_km),
      (''waste_kg'', Float waste_kg),
      (''total_footprint'', Float total_footprint)]"

text \<open>
  What one pass of the loop does after the three numbers are read: the footprint, the
  name, the record, the store, and the question. The result is the records of this run,
  whether the loop goes on, and the state.
\<close>

definition add_client ::
  "pydict list \<Rightarrow> pyfloat \<times> pyfloat \<times> pyfloat \<Rightarrow> world \<Rightarrow> error + (pydict list \<times> bool \<times> world)" where
  "add_client client_data numbers w =
     (case numbers of (energy_kwh, transport_km, waste_kg) \<Rightarrow>
      let total_footprint = calculate_footprint energy_kwh transport_km waste_kg
      in case py_input ''Client Name: '' w of Inl e \<Rightarrow> Inl e | Inr (client_name, w1) \<Rightarrow>
         let details = client_details client_name energy_kwh transport_km waste_kg total_footprint
         in case append_to_csv details w1 of Inl e \<Rightarrow> Inl e | Inr w2 \<Rightarrow>
            case py_input ''Add another client? (yes/no): '' w2 of Inl e \<Rightarrow> Inl e | Inr (answer, w3) \<Rightarrow>
              Inr (client_data @ [details], py_lower (py_strip answer) = ''yes'', w3))"

text \<open>
  The loop of \<^verbatim>\<open>main\<close>, with the records of this run so far. Every pass reads a line, so
  the loop ends on the lines that the terminal still holds; at their end \<^verbatim>\<open>input\<close>
  raises \<^verbatim>\<open>EOFError\<close>.
\<close>

function main_loop ::
  "(string \<Rightarrow> pyfloat option) \<Rightarrow> pydict list \<Rightarrow> world \<Rightarrow> error + (pydict list \<times> world)" where
  "main_loop to_float client_data w =
     (case read_numbers to_float (py_print (CHR 0x0A # ''Enter client data:'') w) of
        Inl e \<Rightarrow> Inl e
      | Inr (None, w1) \<Rightarrow>
          main_loop to_float client_data
            (py_print ''Invalid input. Please enter numeric values.'' w1)
      | Inr (Some numbers, w1) \<Rightarrow>
          (case add_client client_data numbers w1 of
             Inl e \<Rightarrow> Inl e
           | Inr (client_data', again, w2) \<Rightarrow>
               if again then main_loop to_float client_data' w2
               else Inr (client_data', w2)))"
  by pat_completeness auto
termination
  apply (relation "measure (\<lambda>(to_float, client_data, w). length (stdin w))")
    apply simp
  subgoal for to_float client_data w b x y
    by (auto simp: read_numbers_def py_input_def py_print_def
        split: sum.splits list.splits option.splits prod.splits)
  subgoal premises p for to_float client_data w b x y x2 ba xa ya xb yb
  proof -
    from p(1-3) have "length (stdin y) < length (stdin w)"
      by (auto simp: read_numbers_def py_input_def py_print_def
          split: sum.splits list.splits option.splits prod.splits)
    moreover from p(4-6) have "length (stdin yb) < length (stdin y)"
      by (auto simp: add_client_def append_to_csv_def py_input_def py_print_def Let_def
          split: sum.splits list.splits option.splits prod.splits)
    ultimately show ?thesis by simp
  qed
  done

declare main_loop.simps [simp del]

text \<open>The loop over the records of this run at the end of \<^verbatim>\<open>main\<close>.\<close>

fun create_reports :: "pydict list \<Rightarrow> world \<Rightarrow> error + world" where
  "create_reports [] w = Inr w"
| "create_reports (client # rest) w =
     (case field_text client ''Client'' of
        Inl e \<Rightarrow> Inl e
      | Inr name \<Rightarrow>
          (case create_report client (''Reports/'' @ name @ ''_report.pdf'') w of
             Inl e \<Rightarrow> Inl e
           | Inr w' \<Rightarrow> create_reports rest w'))"


section \<open>Notions used to state the properties\<close>


text \<open>\<^verbatim>\<open>append_to_csv\<close> called for each record of a list in turn.\<close>

fun append_all :: "pydict list \<Rightarrow> world \<Rightarrow> error + world" where
  "append_all [] w = Inr w"
| "append_all (d # ds) w =
     (case append_to_csv d w of Inl e \<Rightarrow> Inl e | Inr w' \<Rightarrow> append_all ds w')"

text \<open>The header that the specification fixes for the store.\<close>

definition store_header :: "string list" where
  "store_header = [''Client'', ''energy_kwh'', ''transport_km'', ''waste_kg'', ''total_footprint'']"

text \<open>
  The text of a number in the table file, and an entry of the session (the name and the
  four numbers) with the record that \<^verbatim>\<open>main\<close> builds of it and the line that the
  specification expects for it in the store.
\<close>

definition number_text :: "pyfloat \<Rightarrow> string" where
  "number_text f = (if f = NaN then [] else float_repr f)"

definition entry_record :: "string \<times> pyfloat \<times> pyfloat \<times> pyfloat \<times> pyfloat \<Rightarrow> pydict" where
  "entry_record r = (case r of (n, e, t, k, f) \<Rightarrow> client_details n e t k f)"

definition entry_row :: "string \<times> pyfloat \<times> pyfloat \<times> pyfloat \<times> pyfloat \<Rightarrow> string list" where
  "entry_row r =
     (case r of (n, e, t, k, f) \<Rightarrow>
        [n, number_text e, number_text t, number_text k, number_text f])"

text \<open>
  A record with the five keys of the store, in their order; the name of a record; the
  path of the report for a name.
\<close>

definition client_record :: "pydict \<Rightarrow> bool" where
  "client_record d = (map fst d = store_header)"

definition text_of :: "pydict \<Rightarrow> string \<Rightarrow> string" where
  "text_of d k = (case field_text d k of Inr s \<Rightarrow> s | Inl e \<Rightarrow> [])"

definition record_name :: "pydict \<Rightarrow> string" where
  "record_name d = text_of d ''Client''"

definition report_path :: "string \<Rightarrow> string" where
  "report_path n = ''Reports/'' @ n @ ''_report.pdf''"

text \<open>
  The document that the specification describes for a record: the title, the five
  fields, the suggestions and, when there is an image file, the image. And the lines
  that are printed when it is written to a path.
\<close>

definition report_doc :: "pydict \<Rightarrow> chart option \<Rightarrow> pdf" where
  "report_doc d image_file =
     fst (report_body (text_of d ''Client'') (text_of d ''energy_kwh'')
            (text_of d ''transport_km'') (text_of d ''waste_kg'') (text_of d ''total_footprint''))
     @ (case image_file of
          None \<Rightarrow> []
        | Some img \<Rightarrow> [DrawString 50 512 ''Carbon Footprint Comparison Graph:'',
                       DrawImage img 50 312 500 200 True])"

definition report_output :: "chart option \<Rightarrow> string \<Rightarrow> out list" where
  "report_output image_file path =
     (case image_file of
        None \<Rightarrow> []
      | Some img \<Rightarrow> [Print (''Added '' @ GRAPH_FILE @ '' to '' @ path)])
     @ [Print (''PDF Report Created: '' @ path)]"

text \<open>
  The documents after one report for each record of a list, in turn, has been written
  over the documents \<open>files\<close>.
\<close>

definition reports_written ::
  "pydict list \<Rightarrow> chart option \<Rightarrow> (string \<rightharpoonup> pdf) \<Rightarrow> (string \<rightharpoonup> pdf)" where
  "reports_written ds image_file files =
     foldl (\<lambda>m d. m(report_path (record_name d) \<mapsto> report_doc d image_file)) files ds"








section \<open>Properties\<close>

subsection \<open>The record store\<close>

text \<open>What \<^verbatim>\<open>append_to_csv\<close> does with a record that \<^verbatim>\<open>main\<close> builds.\<close>

lemma append_to_csv_client_details:
  "append_to_csv (client_details n e t k f) w =
     Inr (w\<lparr>csv_file := Some (case csv_file w of
                 None \<Rightarrow> [store_header, csv_row (client_details n e t k f)]
               | Some content \<Rightarrow> content @ [csv_row (client_details n e t k f)]),
            stdout := stdout w @ [Print (''Data for '' @ n @ '' added to CSV.'')]\<rparr>)"
  by (cases "csv_file w")
     (simp_all add: append_to_csv_def Let_def dict_get_def py_print_def store_header_def client_details_def)

lemma csv_row_client_details:
  "csv_row (client_details n e t k f) =
     [n, csv_cell (Float e), csv_cell (Float t), csv_cell (Float k), csv_cell (Float f)]"
  by (simp add: csv_row_def client_details_def)

text \<open>The line of an entry, and appending the records of a list of entries.\<close>

lemma csv_row_entry: "csv_row (entry_record r) = entry_row r"
  by (cases r) (simp add: entry_record_def entry_row_def csv_row_client_details number_text_def)

lemma append_to_csv_entry:
  "append_to_csv (entry_record r) w =
     Inr (w\<lparr>csv_file := Some (case csv_file w of
                 None \<Rightarrow> [store_header, entry_row r]
               | Some content \<Rightarrow> content @ [entry_row r]),
            stdout := stdout w @ [Print (''Data for '' @ fst r @ '' added to CSV.'')]\<rparr>)"
proof -
  obtain n e t k f where r: "r = (n, e, t, k, f)"
    by (cases r) auto
  show ?thesis
    unfolding r
    by (cases "csv_file w")
       (simp_all add: entry_record_def entry_row_def append_to_csv_client_details
          csv_row_client_details number_text_def)
qed

lemma append_all_entries:
  assumes "csv_file w = Some content"
  shows "\<exists>w'. append_all (map entry_record rs) w = Inr w'
           \<and> csv_file w' = Some (content @ map entry_row rs)"
  using assms
proof (induction rs arbitrary: w content)
  case Nil
  then show ?case by simp
next
  case (Cons r rs)
  let ?w = "w\<lparr>csv_file := Some (content @ [entry_row r]),
                stdout := stdout w @ [Print (''Data for '' @ fst r @ '' added to CSV.'')]\<rparr>"
  have step: "append_to_csv (entry_record r) w = Inr ?w"
    using Cons.prems by (simp add: append_to_csv_entry)
  have "\<exists>w'. append_all (map entry_record rs) ?w = Inr w'
          \<and> csv_file w' = Some ((content @ [entry_row r]) @ map entry_row rs)"
    by (intro Cons.IH) simp
  then show ?case by (simp add: step)
qed

text \<open>
  Claim C2. For a record as \<^verbatim>\<open>main\<close> builds it, \<^verbatim>\<open>append_to_csv\<close> returns normally. When
  the file was absent it then holds two lines, the header with the five column names in
  the order the specification fixes and the line of the record: the name, then the
  texts of the three numbers and of the footprint, each under its column. When the
  file was there it holds its former lines, unchanged, followed by that line. So
  appending the records of a non-empty list of entries to an absent file leaves one
  header line followed by one line for each entry in turn.
\<close>

theorem append_to_csv_one_header:
  "append_to_csv (client_details n e t k f) w =
     Inr (w\<lparr>csv_file := Some (case csv_file w of
                 None \<Rightarrow> [[''Client'', ''energy_kwh'', ''transport_km'', ''waste_kg'',
                            ''total_footprint''],
                           [n, number_text e, number_text t, number_text k, number_text f]]
               | Some content \<Rightarrow>
                   content @ [[n, number_text e, number_text t, number_text k, number_text f]]),
            stdout := stdout w @ [Print (''Data for '' @ n @ '' added to CSV.'')]\<rparr>)
   \<and> (csv_file w = None \<and> rs \<noteq> [] \<longrightarrow>
        (\<exists>w'. append_all (map entry_record rs) w = Inr w'
           \<and> csv_file w' =
               Some ([''Client'', ''energy_kwh'', ''transport_km'', ''waste_kg'', ''total_footprint'']
                     # map entry_row rs)))"
proof -
  have one: "append_to_csv (client_details n e t k f) w =
     Inr (w\<lparr>csv_file := Some (case csv_file w of
                 None \<Rightarrow> [[''Client'', ''energy_kwh'', ''transport_km'', ''waste_kg'',
                            ''total_footprint''],
                           [n, number_text e, number_text t, number_text k, number_text f]]
               | Some content \<Rightarrow>
                   content @ [[n, number_text e, number_text t, number_text k, number_text f]]),
            stdout := stdout w @ [Print (''Data for '' @ n @ '' added to CSV.'')]\<rparr>)"
    using append_to_csv_entry [of "(n, e, t, k, f)" w]
    by (cases "csv_file w") (simp_all add: entry_record_def entry_row_def store_header_def)
  have many: "\<exists>w'. append_all (map entry_record rs) w = Inr w'
           \<and> csv_file w' =
               Some ([''Client'', ''energy_kwh'', ''transport_km'', ''waste_kg'', ''total_footprint'']
                     # map entry_row rs)"
    if fresh: "csv_file w = None" and some: "rs \<noteq> []"
  proof -
    from some obtain r rs' where rs: "rs = r # rs'"
      by (cases rs) auto
    let ?w = "w\<lparr>csv_file := Some [store_header, entry_row r],
                stdout := stdout w @ [Print (''Data for '' @ fst r @ '' added to CSV.'')]\<rparr>"
    have step: "append_to_csv (entry_record r) w = Inr ?w"
      using fresh by (simp add: append_to_csv_entry)
    have "\<exists>w'. append_all (map entry_record rs') ?w = Inr w'
            \<and> csv_file w' = Some ([store_header, entry_row r] @ map entry_row rs')"
      by (intro append_all_entries) simp
    then show ?thesis
      by (simp add: rs step store_header_def)
  qed
  from one many show ?thesis
    by (simp only:) blast
qed

lemma number_texts:
  "number_text (Fin 10) = ''10.0''" "number_text (Fin 5) = ''5.0''"
  "number_text (Fin 2) = ''2.0''" "number_text (Fin 1) = ''1.0''"
  "number_text (Fin 3) = ''3.0''" "number_text (Fin 4) = ''4.0''"
  "number_text NaN = []" "number_text PInf = ''inf''"
  by code_simp+

theorem append_to_csv_one_header_witness:
  "\<exists>w'. append_all
          [client_details ''Acme'' (Fin 10) (Fin 5) (Fin 2) (Fin 4),
           client_details ''Bolt'' (Fin 1) (Fin 3) PInf NaN]
          \<lparr>csv_file = None, graph_file = None, pdf_files = Map.empty,
           stdin = [], stdout = []\<rparr> = Inr w'
      \<and> csv_file w' =
          Some [[''Client'', ''energy_kwh'', ''transport_km'', ''waste_kg'', ''total_footprint''],
                [''Acme'', ''10.0'', ''5.0'', ''2.0'', ''4.0''],
                [''Bolt'', ''1.0'', ''3.0'', ''inf'', '''']]"
  using append_to_csv_one_header
    [of undefined undefined undefined undefined undefined
      "\<lparr>csv_file = None, graph_file = None, pdf_files = Map.empty, stdin = [], stdout = []\<rparr>"
      "[(''Acme'', Fin 10, Fin 5, Fin 2, Fin 4), (''Bolt'', Fin 1, Fin 3, PInf, NaN)]",
     THEN conjunct2]
  by (simp add: entry_record_def entry_row_def number_texts)


subsection \<open>The report generator\<close>

text \<open>What \<^verbatim>\<open>create_report\<close> does with a record that \<^verbatim>\<open>main\<close> builds.\<close>

lemma field_text_client_details:
  "field_text (client_details n e t k f) ''Client'' = Inr n"
  "field_text (client_details n e t k f) ''energy_kwh'' = Inr (float_repr e)"
  "field_text (client_details n e t k f) ''transport_km'' = Inr (float_repr t)"
  "field_text (client_details n e t k f) ''waste_kg'' = Inr (float_repr k)"
  "field_text (client_details n e t k f) ''total_footprint'' = Inr (float_repr f)"
  by (simp_all add: field_text_def dict_get_def client_details_def)




subsection \<open>One pass of the session loop\<close>

text \<open>The three prompts when one of the lines is not a number, and when all are.\<close>

lemma read_numbers_invalid:
  assumes "stdin w = good @ bad # rest" and "length good < 3"
    and "\<forall>s\<in>set good. to_float s \<noteq> None" and "to_float bad = None"
  shows "read_numbers to_float w =
           Inr (None, w\<lparr>stdin := rest,
                         stdout := stdout w @ map Prompt (take (Suc (length good))
                           [''Energy (kWh): '', ''Transport (km): '', ''Waste (kg): ''])\<rparr>)"
proof -
  from assms(2) consider "good = []" | a where "good = [a]" | a b where "good = [a, b]"
    by (cases good rule: list.exhaust; simp; rename_tac x xs; case_tac xs; simp;
        rename_tac y ys; case_tac ys; simp)
  then show ?thesis
  proof cases
    case 1
    with assms show ?thesis
      by (simp add: read_numbers_def py_input_def)
  next
    case 2
    with assms show ?thesis
      by (auto simp: read_numbers_def py_input_def)
  next
    case 3
    with assms show ?thesis
      by (auto simp: read_numbers_def py_input_def)
  qed
qed

lemma read_numbers_valid:
  assumes "stdin w = s1 # s2 # s3 # rest"
    and "to_float s1 = Some e" and "to_float s2 = Some t" and "to_float s3 = Some k"
  shows "read_numbers to_float w =
           Inr (Some (e, t, k),
                w\<lparr>stdin := rest,
                  stdout := stdout w @ [Prompt ''Energy (kWh): '', Prompt ''Transport (km): '',
                                        Prompt ''Waste (kg): '']\<rparr>)"
  using assms by (simp add: read_numbers_def py_input_def)

lemma add_client_eq:
  assumes "stdin w = name # answer # rest"
  shows "add_client client_data (e, t, k) w =
     (let d = client_details name e t k (calculate_footprint e t k)
      in Inr (client_data @ [d], py_lower (py_strip answer) = ''yes'',
           w\<lparr>csv_file := Some (case csv_file w of
                    None \<Rightarrow> [store_header, csv_row d]
                  | Some content \<Rightarrow> content @ [csv_row d]),
              stdin := rest,
              stdout := stdout w @ [Prompt ''Client Name: '',
                 Print (''Data for '' @ name @ '' added to CSV.''),
                 Prompt ''Add another client? (yes/no): '']\<rparr>))"
  using assms
  by (simp add: add_client_def py_input_def append_to_csv_client_details Let_def)

text \<open>A pass of the loop that reads three numbers, a name and an answer.\<close>

lemma main_loop_step:
  assumes "stdin w = s1 # s2 # s3 # name # answer # rest"
    and "to_float s1 = Some e" and "to_float s2 = Some t" and "to_float s3 = Some k"
  shows "main_loop to_float client_data w =
     (let d = client_details name e t k (calculate_footprint e t k);
          w' = w\<lparr>csv_file := Some (case csv_file w of
                    None \<Rightarrow> [store_header, csv_row d]
                  | Some content \<Rightarrow> content @ [csv_row d]),
              stdin := rest,
              stdout := stdout w @ [Print (CHR 0x0A # ''Enter client data:''),
                 Prompt ''Energy (kWh): '', Prompt ''Transport (km): '', Prompt ''Waste (kg): '',
                 Prompt ''Client Name: '',
                 Print (''Data for '' @ name @ '' added to CSV.''),
                 Prompt ''Add another client? (yes/no): '']\<rparr>
      in if py_lower (py_strip answer) = ''yes''
         then main_loop to_float (client_data @ [d]) w'
         else Inr (client_data @ [d], w'))"
proof -
  let ?w0 = "py_print (CHR 0x0A # ''Enter client data:'') w"
  let ?w1 = "?w0\<lparr>stdin := name # answer # rest,
              stdout := stdout ?w0 @ [Prompt ''Energy (kWh): '', Prompt ''Transport (km): '',
                                      Prompt ''Waste (kg): '']\<rparr>"
  have r: "read_numbers to_float ?w0 = Inr (Some (e, t, k), ?w1)"
    using assms by (intro read_numbers_valid) (simp_all add: py_print_def)
  have a: "stdin ?w1 = name # answer # rest"
    by simp
  show ?thesis
    apply (subst main_loop.simps)
    apply (simp add: r add_client_eq [OF a] Let_def)
    apply (simp add: py_print_def)
    done
qed

text \<open>
  Claim C5. A pass of the loop that reads three numbers, a name and an answer appends
  the record to the store and to the records of this run; then the loop goes on to
  another pass exactly when the answer, stripped of white space and put in lower case,
  is \<^verbatim>\<open>yes\<close>, and it ends with the records of this run on every other answer.
\<close>

theorem main_loop_continues_iff_yes:
  assumes "stdin w = s1 # s2 # s3 # name # answer # rest"
    and "to_float s1 = Some e" and "to_float s2 = Some t" and "to_float s3 = Some k"
  shows "main_loop to_float client_data w =
     (let d = client_details name e t k (calculate_footprint e t k);
          w' = w\<lparr>csv_file := Some (case csv_file w of
                    None \<Rightarrow> [store_header, csv_row d]
                  | Some content \<Rightarrow> content @ [csv_row d]),
              stdin := rest,
              stdout := stdout w @ [Print (CHR 0x0A # ''Enter client data:''),
                 Prompt ''Energy (kWh): '', Prompt ''Transport (km): '', Prompt ''Waste (kg): '',
                 Prompt ''Client Name: '',
                 Print (''Data for '' @ name @ '' added to CSV.''),
                 Prompt ''Add another client? (yes/no): '']\<rparr>
      in if py_lower (py_strip answer) = ''yes''
         then main_loop to_float (client_data @ [d]) w'
         else Inr (client_data @ [d], w'))"
  using assms by (rule main_loop_step)

lemma strip_lower_example: "py_lower (py_strip '' Yes '') = ''yes''"
  by code_simp

theorem main_loop_continues_iff_yes_witness:
  "py_lower (py_strip '' Yes '') = ''yes''
   \<and> main_loop (\<lambda>s. if s = ''10'' then Some (Fin 10) else None) []
        \<lparr>csv_file = None, graph_file = None, pdf_files = Map.empty,
         stdin = [''10'', ''10'', ''10'', ''Acme'', '' Yes '', ''10''], stdout = []\<rparr>
     = main_loop (\<lambda>s. if s = ''10'' then Some (Fin 10) else None)
        [client_details ''Acme'' (Fin 10) (Fin 10) (Fin 10)
           (calculate_footprint (Fin 10) (Fin 10) (Fin 10))]
        \<lparr>csv_file = Some [store_header,
            csv_row (client_details ''Acme'' (Fin 10) (Fin 10) (Fin 10)
              (calculate_footprint (Fin 10) (Fin 10) (Fin 10)))],
         graph_file = None, pdf_files = Map.empty,
         stdin = [''10''],
         stdout = [Print (CHR 0x0A # ''Enter client data:''),
                 Prompt ''Energy (kWh): '', Prompt ''Transport (km): '', Prompt ''Waste (kg): '',
                 Prompt ''Client Name: '',
                 Print (''Data for '' @ ''Acme'' @ '' added to CSV.''),
                 Prompt ''Add another client? (yes/no): '']\<rparr>"
  using main_loop_continues_iff_yes
    [of "\<lparr>csv_file = None, graph_file = None, pdf_files = Map.empty,
         stdin = [''10'', ''10'', ''10'', ''Acme'', '' Yes '', ''10''], stdout = []\<rparr>"
        "''10''" "''10''" "''10''" "''Acme''" "'' Yes ''" "[''10'']"
        "\<lambda>s. if s = ''10'' then Some (Fin 10) else None" "Fin 10" "Fin 10" "Fin 10" "[]"]
    strip_lower_example
  by (simp add: Let_def)

text \<open>
  Claim C6. When the first, the second or the third number of a pass is not a number,
  the lines before it being numbers, the loop prints the error message and starts the
  pass again: with the same records of this run, and with a state in which only the
  terminal has changed, so nothing is appended to the store. The prompts shown are
  those up to the line that failed; the prompt for the name is not among them. When
  the lines that follow are a complete entry and an answer other than yes, the loop
  returns: it has printed the error message, then the heading and the three prompts
  from the first again, and it returns the records it had with the new one after
  them, the store holding one more line.
\<close>

theorem main_loop_invalid_number:
  assumes "stdin w = good @ bad # rest" and "length good < 3"
    and "\<forall>s\<in>set good. to_float s \<noteq> None" and "to_float bad = None"
  shows "main_loop to_float client_data w =
           main_loop to_float client_data
             (w\<lparr>stdin := rest,
                stdout := stdout w @ Print (CHR 0x0A # ''Enter client data:'')
                  # map Prompt (take (Suc (length good))
                      [''Energy (kWh): '', ''Transport (km): '', ''Waste (kg): ''])
                  @ [Print ''Invalid input. Please enter numeric values.'']\<rparr>)
       \<and> (\<forall>s1 s2 s3 name answer rest' e t k.
             rest = s1 # s2 # s3 # name # answer # rest'
             \<and> to_float s1 = Some e \<and> to_float s2 = Some t \<and> to_float s3 = Some k
             \<and> py_lower (py_strip answer) \<noteq> ''yes''
             \<longrightarrow> main_loop to_float client_data w =
                   Inr (client_data @ [client_details name e t k (calculate_footprint e t k)],
                        w\<lparr>csv_file := Some (case csv_file w of
                               None \<Rightarrow> [store_header,
                                 csv_row (client_details name e t k (calculate_footprint e t k))]
                             | Some content \<Rightarrow> content @
                                 [csv_row (client_details name e t k (calculate_footprint e t k))]),
                          stdin := rest',
                          stdout := stdout w @ Print (CHR 0x0A # ''Enter client data:'')
                            # map Prompt (take (Suc (length good))
                                [''Energy (kWh): '', ''Transport (km): '', ''Waste (kg): ''])
                            @ [Print ''Invalid input. Please enter numeric values.'',
                               Print (CHR 0x0A # ''Enter client data:''),
                               Prompt ''Energy (kWh): '', Prompt ''Transport (km): '',
                               Prompt ''Waste (kg): '', Prompt ''Client Name: '',
                               Print (''Data for '' @ name @ '' added to CSV.''),
                               Prompt ''Add another client? (yes/no): '']\<rparr>))"
proof -
  let ?w0 = "py_print (CHR 0x0A # ''Enter client data:'') w"
  let ?w' = "w\<lparr>stdin := rest,
                stdout := stdout w @ Print (CHR 0x0A # ''Enter client data:'')
                  # map Prompt (take (Suc (length good))
                      [''Energy (kWh): '', ''Transport (km): '', ''Waste (kg): ''])
                  @ [Print ''Invalid input. Please enter numeric values.'']\<rparr>"
  have "read_numbers to_float ?w0 =
          Inr (None, ?w0\<lparr>stdin := rest,
                 stdout := stdout ?w0 @ map Prompt (take (Suc (length good))
                   [''Energy (kWh): '', ''Transport (km): '', ''Waste (kg): ''])\<rparr>)"
    using assms by (intro read_numbers_invalid) (simp_all add: py_print_def)
  then have again: "main_loop to_float client_data w = main_loop to_float client_data ?w'"
    by (subst main_loop.simps) (simp add: py_print_def)
  have next_pass: "main_loop to_float client_data ?w' =
                   Inr (client_data @ [client_details name e t k (calculate_footprint e t k)],
                        w\<lparr>csv_file := Some (case csv_file w of
                               None \<Rightarrow> [store_header,
                                 csv_row (client_details name e t k (calculate_footprint e t k))]
                             | Some content \<Rightarrow> content @
                                 [csv_row (client_details name e t k (calculate_footprint e t k))]),
                          stdin := rest',
                          stdout := stdout w @ Print (CHR 0x0A # ''Enter client data:'')
                            # map Prompt (take (Suc (length good))
                                [''Energy (kWh): '', ''Transport (km): '', ''Waste (kg): ''])
                            @ [Print ''Invalid input. Please enter numeric values.'',
                               Print (CHR 0x0A # ''Enter client data:''),
                               Prompt ''Energy (kWh): '', Prompt ''Transport (km): '',
                               Prompt ''Waste (kg): '', Prompt ''Client Name: '',
                               Print (''Data for '' @ name @ '' added to CSV.''),
                               Prompt ''Add another client? (yes/no): '']\<rparr>)"
    if r: "rest = s1 # s2 # s3 # name # answer # rest'"
      and f: "to_float s1 = Some e" "to_float s2 = Some t" "to_float s3 = Some k"
      and a: "py_lower (py_strip answer) \<noteq> ''yes''"
    for s1 s2 s3 name answer rest' e t k
  proof -
    have s: "stdin ?w' = s1 # s2 # s3 # name # answer # rest'"
      using r by simp
    show ?thesis
      using main_loop_step [OF s f, of client_data] a
      by (simp add: Let_def)
  qed
  from again next_pass show ?thesis
    by (simp only:) blast
qed

lemma strip_lower_no: "py_lower (py_strip ''no'') \<noteq> ''yes''"
  by code_simp

lemma example_total: "float_repr (calculate_footprint (Fin 10) (Fin 10) (Fin 10)) = ''8.530000000000001''"
  by code_simp

theorem main_loop_invalid_number_witness:
  "main_loop (\<lambda>s. if s = ''10'' then Some (Fin 10) else None) []
        \<lparr>csv_file = None, graph_file = None, pdf_files = Map.empty,
         stdin = [''10'', ''abc'', ''10'', ''10'', ''10'', ''Acme'', ''no''], stdout = []\<rparr>
     = Inr ([client_details ''Acme'' (Fin 10) (Fin 10) (Fin 10)
               (calculate_footprint (Fin 10) (Fin 10) (Fin 10))],
            \<lparr>csv_file = Some [[''Client'', ''energy_kwh'', ''transport_km'', ''waste_kg'',
                                ''total_footprint''],
                              [''Acme'', ''10.0'', ''10.0'', ''10.0'', ''8.530000000000001'']],
             graph_file = None, pdf_files = Map.empty, stdin = [],
             stdout = [Print (CHR 0x0A # ''Enter client data:''),
                 Prompt ''Energy (kWh): '', Prompt ''Transport (km): '',
                 Print ''Invalid input. Please enter numeric values.'',
                 Print (CHR 0x0A # ''Enter client data:''),
                 Prompt ''Energy (kWh): '', Prompt ''Transport (km): '', Prompt ''Waste (kg): '',
                 Prompt ''Client Name: '',
                 Print ''Data for Acme added to CSV.'',
                 Prompt ''Add another client? (yes/no): '']\<rparr>)"
proof -
  let ?f = "\<lambda>s. if s = ''10'' then Some (Fin 10) else None"
  let ?w = "\<lparr>csv_file = None, graph_file = None, pdf_files = Map.empty,
           stdin = [''10'', ''abc'', ''10'', ''10'', ''10'', ''Acme'', ''no''], stdout = []\<rparr>"
  have ten: "float_repr (Fin 10) = ''10.0''"
    by code_simp
  have nn: "calculate_footprint (Fin 10) (Fin 10) (Fin 10) \<noteq> NaN"
    by code_simp
  have h: "stdin ?w = [''10''] @ ''abc'' # [''10'', ''10'', ''10'', ''Acme'', ''no'']"
    "length [''10''] < 3" "\<forall>s\<in>set [''10'']. ?f s \<noteq> None" "?f ''abc'' = None"
    by simp_all
  from main_loop_invalid_number [OF h, of "[]", THEN conjunct2]
  have "main_loop ?f [] ?w =
          Inr ([] @ [client_details ''Acme'' (Fin 10) (Fin 10) (Fin 10)
                       (calculate_footprint (Fin 10) (Fin 10) (Fin 10))],
               ?w\<lparr>csv_file := Some [store_header,
                      csv_row (client_details ''Acme'' (Fin 10) (Fin 10) (Fin 10)
                        (calculate_footprint (Fin 10) (Fin 10) (Fin 10)))],
                   stdin := [],
                   stdout := [Print (CHR 0x0A # ''Enter client data:''),
                     Prompt ''Energy (kWh): '', Prompt ''Transport (km): '',
                     Print ''Invalid input. Please enter numeric values.'',
                     Print (CHR 0x0A # ''Enter client data:''),
                     Prompt ''Energy (kWh): '', Prompt ''Transport (km): '', Prompt ''Waste (kg): '',
                     Prompt ''Client Name: '',
                     Print ''Data for Acme added to CSV.'',
                     Prompt ''Add another client? (yes/no): '']\<rparr>)"
    using strip_lower_no by simp
  then show ?thesis
    by (simp add: csv_row_client_details store_header_def ten example_total nn
        del: float_repr.simps)
qed


subsection \<open>The end of the session\<close>

text \<open>
  Facts about records with the five keys, about the reports written for a list of them,
  and about what the loop and the renderer leave unchanged.
\<close>

lemma client_record_client_details [simp]: "client_record (client_details n e t k f)"
  by (simp add: client_record_def client_details_def store_header_def)

lemma client_record_fields:
  assumes "client_record d"
  obtains v1 v2 v3 v4 v5 where
    "d = [(''Client'', v1), (''energy_kwh'', v2), (''transport_km'', v3),
          (''waste_kg'', v4), (''total_footprint'', v5)]"
proof -
  from assms have m: "map fst d = [''Client'', ''energy_kwh'', ''transport_km'', ''waste_kg'', ''total_footprint'']"
    by (simp add: client_record_def store_header_def)
  then obtain p1 p2 p3 p4 p5 where d: "d = [p1, p2, p3, p4, p5]"
    by (auto simp: map_eq_Cons_conv)
  with m have "p1 = (''Client'', snd p1)" "p2 = (''energy_kwh'', snd p2)"
    "p3 = (''transport_km'', snd p3)" "p4 = (''waste_kg'', snd p4)"
    "p5 = (''total_footprint'', snd p5)"
    by (auto simp: prod_eq_iff)
  with d that show thesis by metis
qed

lemma create_report_client_record:
  assumes "client_record d"
  shows "create_report d path w =
           Inr (w\<lparr>pdf_files := (pdf_files w)(path \<mapsto> report_doc d (graph_file w)),
                  stdout := stdout w @ report_output (graph_file w) path\<rparr>)"
proof -
  from assms obtain v1 v2 v3 v4 v5 where
    d: "d = [(''Client'', v1), (''energy_kwh'', v2), (''transport_km'', v3),
          (''waste_kg'', v4), (''total_footprint'', v5)]"
    by (rule client_record_fields)
  show ?thesis
    by (cases "graph_file w")
       (simp_all add: d create_report_def field_text_def dict_get_def report_doc_def
          report_output_def text_of_def report_body_def Let_def py_print_def)
qed

lemma field_text_client_record:
  assumes "client_record d"
  shows "field_text d ''Client'' = Inr (record_name d)"
proof -
  from assms obtain v1 v2 v3 v4 v5 where
    d: "d = [(''Client'', v1), (''energy_kwh'', v2), (''transport_km'', v3),
          (''waste_kg'', v4), (''total_footprint'', v5)]"
    by (rule client_record_fields)
  show ?thesis
    by (simp add: d record_name_def text_of_def field_text_def dict_get_def)
qed

lemma create_reports_client_records:
  assumes "list_all client_record ds"
  shows "create_reports ds w =
           Inr (w\<lparr>pdf_files := reports_written ds (graph_file w) (pdf_files w),
                  stdout := stdout w @ concat (map (\<lambda>d. report_output (graph_file w)
                                                     (report_path (record_name d))) ds)\<rparr>)"
  using assms
proof (induction ds arbitrary: w)
  case Nil
  show ?case by (simp add: reports_written_def)
next
  case (Cons d ds)
  then have d: "client_record d" and ds: "list_all client_record ds"
    by simp_all
  let ?p = "report_path (record_name d)"
  let ?w = "w\<lparr>pdf_files := (pdf_files w)(?p \<mapsto> report_doc d (graph_file w)),
               stdout := stdout w @ report_output (graph_file w) ?p\<rparr>"
  have step: "create_report d (''Reports/'' @ record_name d @ ''_report.pdf'') w = Inr ?w"
    using create_report_client_record [OF d, of ?p w] by (simp add: report_path_def)
  show ?case
    apply (simp only: create_reports.simps field_text_client_record [OF d] sum.case step
        Cons.IH [OF ds])
    apply (simp add: reports_written_def fun_upd_def)
    done
qed

lemma report_path_inj: "report_path n = report_path m \<longleftrightarrow> n = m"
  by (simp add: report_path_def)

lemma reports_written_lookup:
  "reports_written ds g files (report_path n) =
     (case find (\<lambda>d. record_name d = n) (rev ds) of
        Some d \<Rightarrow> Some (report_doc d g)
      | None \<Rightarrow> files (report_path n))"
proof (induction ds rule: rev_induct)
  case Nil
  show ?case by (simp add: reports_written_def)
next
  case (snoc d ds)
  from snoc show ?case
    by (auto simp: reports_written_def report_path_inj)
qed





lemma reports_written_dom:
  "dom (reports_written ds g files) = dom files \<union> (\<lambda>d. report_path (record_name d)) ` set ds"
proof (induction ds rule: rev_induct)
  case Nil
  show ?case by (simp add: reports_written_def)
next
  case (snoc d ds)
  have step: "reports_written (ds @ [d]) g files =
                (reports_written ds g files)(report_path (record_name d) \<mapsto> report_doc d g)"
    by (simp add: reports_written_def)
  show ?case
    by (subst step) (use snoc.IH in auto)
qed

lemma find_append_eq:
  "find P (xs @ ys) = (case find P xs of None \<Rightarrow> find P ys | Some x \<Rightarrow> Some x)"
  by (induction xs) simp_all

lemma record_name_client_details [simp]: "record_name (client_details n e t k f) = n"
  by (simp add: record_name_def text_of_def field_text_client_details)


text \<open>
  Claim C10. When two records of a run have the same name, their reports have the same
  path; after the reports of the run the file at that path holds the report of the
  later of the two, provided no record after it has the name again (then the last of
  them wins likewise). The report files are the former ones and one path for each name
  of the run, so a single file remains for the shared name.
\<close>

theorem reports_same_name_overwrite:
  assumes "list_all client_record (xs @ d1 # ys @ d2 # zs)"
    and "record_name d1 = record_name d2"
    and "\<forall>d\<in>set zs. record_name d \<noteq> record_name d2"
  shows "report_path (record_name d1) = report_path (record_name d2)
       \<and> (\<exists>w'. create_reports (xs @ d1 # ys @ d2 # zs) w = Inr w'
             \<and> pdf_files w' (report_path (record_name d2)) = Some (report_doc d2 (graph_file w))
             \<and> dom (pdf_files w') = dom (pdf_files w)
                  \<union> (\<lambda>d. report_path (record_name d)) ` set (xs @ d1 # ys @ d2 # zs))"
proof -
  let ?cs = "xs @ d1 # ys @ d2 # zs"
  have "find (\<lambda>d. record_name d = record_name d2) (rev zs) = None"
    using assms(3) by (simp add: find_None_iff)
  then have last: "find (\<lambda>d. record_name d = record_name d2) (rev ?cs) = Some d2"
    by (simp add: find_append_eq)
  show ?thesis
    using assms(2) last
    by (simp add: create_reports_client_records [OF assms(1)] reports_written_lookup
        reports_written_dom)
qed




theorem reports_same_name_overwrite_witness:
  "record_name (client_details ''Acme'' (Fin 1) (Fin 1) (Fin 1) (Fin 1))
     = record_name (client_details ''Acme'' (Fin 2) (Fin 2) (Fin 2) (Fin 2))
   \<and> report_path ''Acme'' = ''Reports/Acme_report.pdf''
   \<and> (\<exists>w'. create_reports
               [client_details ''Acme'' (Fin 1) (Fin 1) (Fin 1) (Fin 1),
                client_details ''Acme'' (Fin 2) (Fin 2) (Fin 2) (Fin 2)]
               \<lparr>csv_file = None, graph_file = None, pdf_files = Map.empty,
                stdin = [], stdout = []\<rparr> = Inr w'
          \<and> pdf_files w' ''Reports/Acme_report.pdf''
              = Some (report_doc (client_details ''Acme'' (Fin 2) (Fin 2) (Fin 2) (Fin 2)) None)
          \<and> dom (pdf_files w') = {''Reports/Acme_report.pdf''})"
proof -
  have r: "list_all client_record
             ([] @ client_details ''Acme'' (Fin 1) (Fin 1) (Fin 1) (Fin 1)
                 # [] @ client_details ''Acme'' (Fin 2) (Fin 2) (Fin 2) (Fin 2) # [])"
    by simp
  have n: "record_name (client_details ''Acme'' (Fin 1) (Fin 1) (Fin 1) (Fin 1))
             = record_name (client_details ''Acme'' (Fin 2) (Fin 2) (Fin 2) (Fin 2))"
    by simp
  have z: "\<forall>d\<in>set []. record_name d
             \<noteq> record_name (client_details ''Acme'' (Fin 2) (Fin 2) (Fin 2) (Fin 2))"
    by simp
  show ?thesis
    using reports_same_name_overwrite [OF r n z,
        of "\<lparr>csv_file = None, graph_file = None, pdf_files = Map.empty,
             stdin = [], stdout = []\<rparr>"]
    by (simp add: report_path_def)
qed

subsection \<open>The footprint calculator\<close>











text \<open>The floats of the example of the specification, and how they print.\<close>

lemma example_value:
  "calculate_footprint (Fin 10) (Fin 5) (Fin 2) = Fin (8849573267783025 / 2251799813685248)"
  by code_simp

lemma example_literal: "lit (393 / 100) = Fin (8849573267783025 / 2251799813685248)"
  by code_simp

lemma example_repr: "float_repr (Fin (8849573267783025 / 2251799813685248)) = ''3.93''"
  by code_simp

lemma repr_10: "float_repr (Fin 10) = ''10.0''"
  by code_simp

lemma repr_5: "float_repr (Fin 5) = ''5.0''"
  by code_simp

lemma repr_2: "float_repr (Fin 2) = ''2.0''"
  by code_simp

text \<open>
  Claim C9. For energy 10, transport 5 and waste 2 the computed footprint is the float
  that the literal \<^verbatim>\<open>3.93\<close> denotes, and it prints as \<^verbatim>\<open>3.93\<close>. So the row that is stored for
  the client ends with the field \<^verbatim>\<open>3.93\<close>, and the report, which \<^verbatim>\<open>create_report\<close> writes
  without error, has the line \<^verbatim>\<open>Footprint: 3.93 kg CO2\<close>.
\<close>

theorem footprint_example:
  "let total = calculate_footprint (Fin 10) (Fin 5) (Fin 2);
       d = client_details ''Acme'' (Fin 10) (Fin 5) (Fin 2) total
   in total = lit (393 / 100)
      \<and> py_str (Float total) = ''3.93''
      \<and> csv_row d = [''Acme'', ''10.0'', ''5.0'', ''2.0'', ''3.93'']
      \<and> create_report d path w =
            Inr (w\<lparr>pdf_files := (pdf_files w)(path \<mapsto> report_doc d (graph_file w)),
                   stdout := stdout w @ report_output (graph_file w) path\<rparr>)
      \<and> DrawString 50 632 ''Footprint: 3.93 kg CO2'' \<in> set (report_doc d (graph_file w))"
proof -
  let ?total = "calculate_footprint (Fin 10) (Fin 5) (Fin 2)"
  let ?d = "client_details ''Acme'' (Fin 10) (Fin 5) (Fin 2) ?total"
  have total: "?total = lit (393 / 100)"
    by (simp add: example_value example_literal)
  have shown: "py_str (Float ?total) = ''3.93''"
    by (simp add: example_value example_repr del: float_repr.simps)
  have row: "csv_row ?d = [''Acme'', ''10.0'', ''5.0'', ''2.0'', ''3.93'']"
    by (simp add: csv_row_client_details example_value example_repr repr_10 repr_5 repr_2
        del: float_repr.simps)
  have report: "create_report ?d path w =
            Inr (w\<lparr>pdf_files := (pdf_files w)(path \<mapsto> report_doc ?d (graph_file w)),
                   stdout := stdout w @ report_output (graph_file w) path\<rparr>)"
    by (rule create_report_client_record) simp
  have "text_of ?d ''total_footprint'' = ''3.93''"
    using shown by (simp add: text_of_def field_text_client_details del: float_repr.simps)
  then have line: "DrawString 50 632 ''Footprint: 3.93 kg CO2'' \<in> set (report_doc ?d (graph_file w))"
    by (simp add: report_doc_def report_body_def Let_def)
  from total shown row report line show ?thesis
    by (simp only: Let_def)
qed

subsection \<open>The trend renderer\<close>



text \<open>
  Claim C4, as the code has it. When the table file is absent, \<^verbatim>\<open>generate_graph\<close> prints
  the message that there is no data and changes nothing else: the image file is
  neither made nor written over.
\<close>

theorem generate_graph_without_store:
  assumes "csv_file w = None"
  shows "generate_graph w =
           Inr (w\<lparr>stdout := stdout w @
                  [Print ''No data found! Run the program and add client data first.'']\<rparr>)"
  using assms by (simp add: generate_graph_def py_print_def)

theorem generate_graph_without_store_witness:
  "csv_file \<lparr>csv_file = None, graph_file = None, pdf_files = Map.empty,
              stdin = [], stdout = []\<rparr> = None
   \<and> generate_graph \<lparr>csv_file = None, graph_file = None, pdf_files = Map.empty,
                       stdin = [], stdout = []\<rparr>
     = Inr \<lparr>csv_file = None, graph_file = None, pdf_files = Map.empty, stdin = [],
            stdout = [Print ''No data found! Run the program and add client data first.'']\<rparr>"
  using generate_graph_without_store
    [of "\<lparr>csv_file = None, graph_file = None, pdf_files = Map.empty,
          stdin = [], stdout = []\<rparr>"]
  by simp

text \<open>
  Claim C4 as it is written also covers a table file that is there and empty. There
  the code does something else. On a file without any line the table reader raises,
  and nothing is printed about missing data. On a file with the header line alone the
  chart is drawn, with no bar and no point, and the image file is written.
\<close>

theorem generate_graph_empty_store_counterexample:
  "generate_graph \<lparr>csv_file = Some [], graph_file = None, pdf_files = Map.empty,
                    stdin = [], stdout = []\<rparr>
     = Inl EmptyDataError
   \<and> generate_graph
        \<lparr>csv_file = Some [[''Client'', ''energy_kwh'', ''transport_km'', ''waste_kg'',
                            ''total_footprint'']],
         graph_file = None, pdf_files = Map.empty, stdin = [], stdout = []\<rparr>
     = Inr \<lparr>csv_file = Some [[''Client'', ''energy_kwh'', ''transport_km'', ''waste_kg'',
                               ''total_footprint'']],
            graph_file = Some [Bar ''Carbon Footprint'' [] [], Line ''Energy'' [] [],
                               Line ''Transport'' [] [], Line ''Waste'' [] []],
            pdf_files = Map.empty, stdin = [],
            stdout = [PrintColumns [''Client'', ''energy_kwh'', ''transport_km'', ''waste_kg'',
                                    ''total_footprint''],
                      Print (''Graph saved as '' @ quoted GRAPH_FILE @ ''.'')]\<rparr>"
  by (simp add: generate_graph_def read_csv_def py_print_def draw_chart_def plot_series_def
      get_column_def)

end
